theory Spec2Isabelle
  imports Main "HOL-Library.AList"
begin

section \<open>Package files: file access and serialisation helpers for templates\<close>

text \<open>
  The package \<^verbatim>\<open>files\<close> (\<^verbatim>\<open>src/files/files.go\<close>) is a thin layer over the Go standard
  library and three third-party encoders. Its own code is embedded below function by
  function. What it calls but does not contain is treated as follows.
  \<^item> \<^verbatim>\<open>yaml.Marshal\<close>, \<^verbatim>\<open>yaml.Unmarshal\<close> (gopkg.in/yaml.v2), \<^verbatim>\<open>json.Marshal\<close>,
    \<^verbatim>\<open>json.Unmarshal\<close> (encoding/json) and \<^verbatim>\<open>toml.Encoder.Encode\<close> (BurntSushi/toml) are
    the fields of a record \<open>codecs\<close> that every function using them takes as its first
    argument. A theorem about \<open>ToYaml L\<close> therefore holds for every behaviour \<open>L\<close> of these
    libraries; what a theorem needs from a library is one of its hypotheses.
  \<^item> \<^verbatim>\<open>filepath.Join\<close>, \<^verbatim>\<open>filepath.Glob\<close> and \<^verbatim>\<open>ioutil.ReadFile\<close> depend on the file system
    and are the fields of a record \<open>filesystem\<close>, passed in the same way.
  \<^item> \<^verbatim>\<open>filepath.Base\<close> (for slash-separated paths) and
    \<^verbatim>\<open>base64.StdEncoding.EncodeToString\<close> are pure functions of the standard library and
    are written out, following the library's algorithm.
  Go strings are byte sequences: \<^typ>\<open>string\<close>, a list of 8-bit characters.
\<close>

subsection \<open>Data model\<close>

text \<open>The description of a Go \<^verbatim>\<open>error\<close>, what \<^verbatim>\<open>err.Error()\<close> returns.\<close>

type_synonym err = string

text \<open>
  A value of type \<^verbatim>\<open>interface{}\<close>: the dynamic document tree the encoders take and the
  decoders build. \<open>IStringMap\<close> is a \<^verbatim>\<open>map[string]string\<close> (what \<^verbatim>\<open>AsConfig\<close> hands to
  \<^verbatim>\<open>ToYaml\<close>), \<open>IMap\<close> a \<^verbatim>\<open>map[string]interface{}\<close>, \<open>ISlice\<close> a \<^verbatim>\<open>[]interface{}\<close>;
  \<open>IOther t\<close> is a value of any other Go type, named by its type.
\<close>

datatype iface =
    INil
  | IBool bool
  | IInt int
  | IString string
  | ISlice "iface list"
  | IMap "string \<Rightarrow> iface option"
  | IStringMap "string \<Rightarrow> string option"
  | IOther string

text \<open>
  A variable of type \<^verbatim>\<open>map[string]interface{}\<close>: \<open>None\<close> is the nil map, which can be read
  but not assigned to.
\<close>

type_synonym gomap = "(string \<Rightarrow> iface option) option"

text \<open>
  \<^verbatim>\<open>type Files map[string]string\<close>. \<open>None\<close> is the nil map. A non-nil map is the list of
  its entries in the order in which \<^verbatim>\<open>range\<close> visits them; Go leaves that order
  unspecified, so a statement about a collection is a statement about every such list.
  The keys of a Go map are distinct.
\<close>

type_synonym Files = "(string \<times> string) list option"

type_synonym Dir = string

text \<open>\<^verbatim>\<open>glog.Exitf\<close> logs the formatted message and ends the process.\<close>

datatype fatal = Exitf string

text \<open>The run-time panic of \<^verbatim>\<open>m[k] = v\<close> on a nil map.\<close>

datatype panic = AssignmentToEntryInNilMap

record codecs =
  yaml_Marshal :: "iface \<Rightarrow> err + string"
  yaml_Unmarshal :: "string \<Rightarrow> gomap \<Rightarrow> gomap \<times> err option"
  toml_Encode :: "iface \<Rightarrow> err + string"
  json_Marshal :: "iface \<Rightarrow> err + string"
  json_Unmarshal :: "string \<Rightarrow> gomap \<Rightarrow> gomap \<times> err option"

text \<open>
  \<open>yaml_Marshal L v\<close> and \<open>json_Marshal L v\<close> are the two results \<^verbatim>\<open>(data, err)\<close> of the
  library call: \<open>Inl e\<close> when \<^verbatim>\<open>err != nil\<close>, with \<open>e\<close> its description, \<open>Inr data\<close>
  otherwise. \<open>toml_Encode L v\<close> is \<open>Inl e\<close> when \<^verbatim>\<open>Encode\<close> returns an error and \<open>Inr s\<close>
  when it returns nil having written \<open>s\<close> to the buffer. The decoders get the text and the
  map their pointer argument refers to, and return the map as they leave it together with
  the error, if any: a decoder may have written to the map before it fails.
\<close>

record filesystem =
  filepath_Join :: "string \<Rightarrow> string \<Rightarrow> string"
  filepath_Glob :: "string \<Rightarrow> err + string list"
  ioutil_ReadFile :: "string \<Rightarrow> err + string"

subsection \<open>Standard library: \<^verbatim>\<open>filepath.Base\<close> and \<^verbatim>\<open>base64.StdEncoding\<close>\<close>

definition IsPathSeparator :: "char \<Rightarrow> bool" where
  "IsPathSeparator c = (c = CHR ''/'')"

text \<open>
  \<^verbatim>\<open>filepath.Base\<close>: the empty path gives \<^verbatim>\<open>"."\<close>; trailing separators are stripped; the
  result is what follows the last separator left, or \<^verbatim>\<open>"/"\<close> when nothing is left.
\<close>

definition Base :: "string \<Rightarrow> string" where
  "Base path =
     (if path = [] then ''.''
      else
        let stripped = rev (dropWhile IsPathSeparator (rev path));
            element = rev (takeWhile (\<lambda>c. \<not> IsPathSeparator c) (rev stripped))
        in if element = [] then ''/'' else element)"

definition encodeStd :: string where
  "encodeStd = ''ABCDEFGHIJKLMNOPQRSTUVWXYZabcdefghijklmnopqrstuvwxyz0123456789+/''"

definition enc6 :: "nat \<Rightarrow> char" where
  "enc6 n = encodeStd ! (n mod 64)"

text \<open>
  \<^verbatim>\<open>Encoding.Encode\<close> with the standard alphabet and padding \<^verbatim>\<open>=\<close>: three bytes give
  four characters; a remainder of one or two bytes is padded.
\<close>

fun EncodeToString :: "string \<Rightarrow> string" where
  "EncodeToString (a # b # c # rest) =
     (let val = of_char a * 65536 + of_char b * 256 + (of_char c :: nat)
      in enc6 (val div 262144) # enc6 (val div 4096) # enc6 (val div 64) # enc6 val
           # EncodeToString rest)"
| "EncodeToString [a, b] =
     (let val = of_char a * 65536 + of_char b * 256 + (0 :: nat)
      in [enc6 (val div 262144), enc6 (val div 4096), enc6 (val div 64), CHR ''=''])"
| "EncodeToString [a] =
     (let val = of_char a * (65536 :: nat)
      in [enc6 (val div 262144), enc6 (val div 4096), CHR ''='', CHR ''=''])"
| "EncodeToString [] = []"

subsection \<open>Dir: \<^verbatim>\<open>Get\<close> and \<^verbatim>\<open>Glob\<close>\<close>

definition Get :: "filesystem \<Rightarrow> Dir \<Rightarrow> string \<Rightarrow> fatal + string" where
  "Get F dir name =
     (let p = filepath_Join F dir name in
      case ioutil_ReadFile F p of
        Inl e \<Rightarrow> Inl (Exitf (''Files.Get failed: '' @ e))
      | Inr b \<Rightarrow> Inr b)"

text \<open>
  The loop of \<^verbatim>\<open>Glob\<close> over the matches: each file is read and stored under its path,
  \<^verbatim>\<open>m[f] = string(b)\<close>; the first read error is fatal.
\<close>

fun Glob_loop ::
  "filesystem \<Rightarrow> string \<Rightarrow> string list \<Rightarrow> (string \<times> string) list
     \<Rightarrow> fatal + (string \<times> string) list" where
  "Glob_loop F pattern [] m = Inr m"
| "Glob_loop F pattern (f # fs) m =
     (case ioutil_ReadFile F f of
        Inl e \<Rightarrow> Inl (Exitf (''Files.Glob '' @ pattern @ '' failed: '' @ e))
      | Inr b \<Rightarrow> Glob_loop F pattern fs (AList.update f b m))"

definition Glob :: "filesystem \<Rightarrow> Dir \<Rightarrow> string \<Rightarrow> fatal + Files" where
  "Glob F dir pattern =
     (let p = filepath_Join F dir pattern in
      case filepath_Glob F p of
        Inl e \<Rightarrow> Inl (Exitf (''Files.Glob '' @ pattern @ '' failed: '' @ e))
      | Inr fs \<Rightarrow>
          (case Glob_loop F pattern fs [] of
             Inl x \<Rightarrow> Inl x
           | Inr m \<Rightarrow> Inr (Some m)))"

subsection \<open>The format functions\<close>

definition ToYaml :: "codecs \<Rightarrow> iface \<Rightarrow> string" where
  "ToYaml L v = (case yaml_Marshal L v of Inl e \<Rightarrow> [] | Inr data \<Rightarrow> data)"

definition FromYaml :: "codecs \<Rightarrow> string \<Rightarrow> panic + gomap" where
  "FromYaml L str =
     (case yaml_Unmarshal L str (Some Map.empty) of
        (m, None) \<Rightarrow> Inr m
      | (m, Some e) \<Rightarrow>
          (case m of
             None \<Rightarrow> Inl AssignmentToEntryInNilMap
           | Some entries \<Rightarrow> Inr (Some (entries(''Error'' \<mapsto> IString e)))))"

definition ToToml :: "codecs \<Rightarrow> iface \<Rightarrow> string" where
  "ToToml L v = (case toml_Encode L v of Inl e \<Rightarrow> e | Inr written \<Rightarrow> written)"

definition ToJson :: "codecs \<Rightarrow> iface \<Rightarrow> string" where
  "ToJson L v = (case json_Marshal L v of Inl e \<Rightarrow> [] | Inr data \<Rightarrow> data)"

definition FromJson :: "codecs \<Rightarrow> string \<Rightarrow> panic + gomap" where
  "FromJson L str =
     (case json_Unmarshal L str (Some Map.empty) of
        (m, None) \<Rightarrow> Inr m
      | (m, Some e) \<Rightarrow>
          (case m of
             None \<Rightarrow> Inl AssignmentToEntryInNilMap
           | Some entries \<Rightarrow> Inr (Some (entries(''Error'' \<mapsto> IString e)))))"

subsection \<open>Files: \<^verbatim>\<open>AsConfig\<close> and \<^verbatim>\<open>AsSecrets\<close>\<close>

text \<open>
  The map both functions build, \<^verbatim>\<open>m[filepath.Base(k)] = g(v)\<close> for the entries in the
  order of the \<^verbatim>\<open>range\<close> loop; \<open>g\<close> is the identity in \<^verbatim>\<open>AsConfig\<close> and the base64
  encoding in \<^verbatim>\<open>AsSecrets\<close>.
\<close>

definition flatten :: "(string \<Rightarrow> string) \<Rightarrow> (string \<times> string) list \<Rightarrow> (string \<Rightarrow> string option)" where
  "flatten g entries = fold (\<lambda>(k, v) m. m(Base k \<mapsto> g v)) entries Map.empty"

definition AsConfig :: "codecs \<Rightarrow> Files \<Rightarrow> string" where
  "AsConfig L f =
     (case f of
        None \<Rightarrow> []
      | Some entries \<Rightarrow> ToYaml L (IStringMap (flatten (\<lambda>v. v) entries)))"

definition AsSecrets :: "codecs \<Rightarrow> Files \<Rightarrow> string" where
  "AsSecrets L f =
     (case f of
        None \<Rightarrow> []
      | Some entries \<Rightarrow> ToYaml L (IStringMap (flatten EncodeToString entries)))"

subsection \<open>Sample environments\<close>

text \<open>
  The theorems below hold for every \<open>codecs\<close> and every \<open>filesystem\<close>. To apply them to
  concrete inputs one environment of each kind is fixed here. \<open>sample_codecs\<close> tabulates
  what the three libraries return on the few values and documents used in the examples;
  on anything else it reports an error that says so.
\<close>

text \<open>A decoder storing the fields of a document into the map it was given.\<close>

definition decode_into :: "gomap \<Rightarrow> (string \<times> iface) list \<Rightarrow> gomap" where
  "decode_into m kvs =
     Some (fold (\<lambda>(k, v) entries. entries(k \<mapsto> v)) kvs
             (case m of None \<Rightarrow> Map.empty | Some entries \<Rightarrow> entries))"

definition squote :: string where
  "squote = [CHR 0x27]"

definition sample_yaml_Marshal :: "iface \<Rightarrow> err + string" where
  "sample_yaml_Marshal v =
     (if v = IStringMap Map.empty then Inr ''{}\<newline>''
      else if v = IStringMap [''k'' \<mapsto> ''v''] then Inr ''k: v\<newline>''
      else if v = IStringMap [''app.yaml'' \<mapsto> ''v: 1'']
        then Inr (''app.yaml: '' @ squote @ ''v: 1'' @ squote @ ''\<newline>'')
      else if v = IStringMap [''s.txt'' \<mapsto> ''aGVsbG8=''] then Inr ''s.txt: aGVsbG8=\<newline>''
      else if v = IOther ''failingMarshaler'' then Inl ''MarshalYAML failed''
      else Inl ''yaml: value not in the sample'')"

definition sample_yaml_Unmarshal :: "string \<Rightarrow> gomap \<Rightarrow> gomap \<times> err option" where
  "sample_yaml_Unmarshal str m =
     (if str = ''k: v\<newline>'' then (decode_into m [(''k'', IString ''v'')], None)
      else if str = ''app.yaml: '' @ squote @ ''v: 1'' @ squote @ ''\<newline>''
        then (decode_into m [(''app.yaml'', IString ''v: 1'')], None)
      else if str = ''Error: msg'' then (decode_into m [(''Error'', IString ''msg'')], None)
      else if str = ''s.txt: aGVsbG8=\<newline>''
        then (decode_into m [(''s.txt'', IString ''aGVsbG8='')], None)
      else if str = ''a: 1\<newline>[b]: 2\<newline>''
        then (decode_into m [(''a'', IInt 1)],
              Some ''yaml: unmarshal errors:\<newline>  line 2: cannot unmarshal !!seq into string'')
      else if str = ''not: valid: yaml: :''
        then (m, Some ''yaml: mapping values are not allowed in this context'')
      else (m, Some ''yaml: document not in the sample''))"

definition sample_toml_Encode :: "iface \<Rightarrow> err + string" where
  \<open>sample_toml_Encode v =
     (if v = IStringMap [''k'' \<mapsto> ''v''] then Inr ''k = "v"\<newline>''
      else if v = IString ''x'' then Inl ''toml: top-level values must be Go maps or structs''
      else Inl ''toml: value not in the sample'')\<close>

definition sample_json_Marshal :: "iface \<Rightarrow> err + string" where
  \<open>sample_json_Marshal v =
     (if v = IString ''x'' then Inr ''"x"''
      else if v = IMap [''a'' \<mapsto> IString ''b''] then Inr ''{"a":"b"}''
      else if v = INil then Inr ''null''
      else if v = ISlice [IString ''x''] then Inr ''["x"]''
      else if v = IOther ''chan int'' then Inl ''json: unsupported type: chan int''
      else Inl ''json: value not in the sample'')\<close>

definition sample_json_Unmarshal :: "string \<Rightarrow> gomap \<Rightarrow> gomap \<times> err option" where
  \<open>sample_json_Unmarshal str m =
     (if str = ''{"a":"b"}'' then (decode_into m [(''a'', IString ''b'')], None)
      else if str = ''{"Error":"msg"}'' then (decode_into m [(''Error'', IString ''msg'')], None)
      else if str = ''"x"''
        then (m, Some ''json: cannot unmarshal string into Go value of type map[string]interface {}'')
      else if str = ''{'' then (m, Some ''unexpected end of JSON input'')
      else if str = ''null'' then (None, None)
      else if str = ''["x"]''
        then (m, Some ''json: cannot unmarshal array into Go value of type map[string]interface {}'')
      else (m, Some ''json: document not in the sample''))\<close>

definition sample_codecs :: codecs where
  "sample_codecs =
     \<lparr> yaml_Marshal = sample_yaml_Marshal,
       yaml_Unmarshal = sample_yaml_Unmarshal,
       toml_Encode = sample_toml_Encode,
       json_Marshal = sample_json_Marshal,
       json_Unmarshal = sample_json_Unmarshal \<rparr>"

text \<open>A base directory without files: every pattern is well formed and matches nothing.\<close>

definition empty_dir :: filesystem where
  "empty_dir =
     \<lparr> filepath_Join = (\<lambda>dir name. dir @ ''/'' @ name),
       filepath_Glob = (\<lambda>p. Inr []),
       ioutil_ReadFile = (\<lambda>p. Inl (''open '' @ p @ '': no such file or directory'')) \<rparr>"

subsection \<open>Recovering a value\<close>


section \<open>Properties\<close>

subsection \<open>The flattened map\<close>

lemma flatten_snoc: "flatten g (es @ [(k, v)]) = (flatten g es)(Base k \<mapsto> g v)"
  by (simp add: flatten_def)

text \<open>
  The loop leaves, under each base name, the value of the entry visited last among those
  with that base name: the map of the renamed entries read from the last to the first.
\<close>

lemma flatten_map_of:
  "flatten g es = map_of (rev (map (\<lambda>(k, v). (Base k, g v)) es))"
proof (induction es rule: rev_induct)
  case Nil
  show ?case by (simp add: flatten_def)
next
  case (snoc e es)
  obtain k v where e: "e = (k, v)" by (cases e)
  have "flatten g (es @ [e]) = (flatten g es)(Base k \<mapsto> g v)"
    by (simp add: e flatten_snoc)
  also have "\<dots> = map_of ((Base k, g v) # rev (map (\<lambda>(k, v). (Base k, g v)) es))"
    by (simp add: snoc.IH)
  finally show ?case by (simp add: e)
qed

lemma flatten_dom: "dom (flatten g es) = Base ` fst ` set es"
proof -
  have "fst ` set (rev (map (\<lambda>(k, v). (Base k, g v)) es)) = Base ` fst ` set es"
    by (force simp: image_iff)
  then show ?thesis by (simp only: flatten_map_of dom_map_of_conv_image_fst)
qed

lemma flatten_last_wins:
  assumes "Base k \<notin> Base ` fst ` set after"
  shows "flatten g (before @ (k, v) # after) (Base k) = Some (g v)"
proof -
  have "flatten g after (Base k) = None"
    using assms flatten_dom [of g after] by (auto simp: domIff)
  then have "map_of (rev (map (\<lambda>(k, v). (Base k, g v)) after)) (Base k) = None"
    by (simp add: flatten_map_of)
  then show ?thesis
    by (simp add: flatten_map_of map_add_def)
qed

lemma singleton_map_eq: "([a \<mapsto> x] = [b \<mapsto> y]) = (a = b \<and> x = y)"
  by (metis fun_upd_same map_upd_Some_unfold option.inject option.distinct(1))


subsection \<open>The nil collection\<close>

text \<open>
  C3. On the nil collection \<^verbatim>\<open>AsConfig\<close> and \<^verbatim>\<open>AsSecrets\<close> return the empty string,
  whatever the YAML library does: the nil check returns before the encoder is called.
  Both functions return a plain string, so neither has a failing branch.
\<close>

theorem nil_collection_empty_string:
  "AsConfig L None = [] \<and> AsSecrets L None = []"
  by (simp add: AsConfig_def AsSecrets_def)

subsection \<open>Zero matches\<close>

text \<open>
  C8. When the pattern, joined with the base directory, is well formed
  (\<^verbatim>\<open>filepath.Glob\<close> returns no error) and matches no file, \<^verbatim>\<open>Glob\<close> returns the map made
  by \<^verbatim>\<open>make(Files, 0)\<close>: non-nil and empty. The result is a value, not the fatal exit.
\<close>

theorem Glob_zero_matches:
  assumes "filepath_Glob F (filepath_Join F dir pattern) = Inr []"
  shows "Glob F dir pattern = Inr (Some [])"
  using assms by (simp add: Glob_def)

theorem Glob_zero_matches_witness:
  "filepath_Glob empty_dir (filepath_Join empty_dir ''charts'' ''*.yaml'') = Inr [] \<and>
   Glob empty_dir ''charts'' ''*.yaml'' = Inr (Some [])"
proof -
  have h: "filepath_Glob empty_dir (filepath_Join empty_dir ''charts'' ''*.yaml'') = Inr []"
    by (simp add: empty_dir_def)
  show ?thesis using h Glob_zero_matches [OF h] by simp
qed

subsection \<open>Marshal failures\<close>

text \<open>
  C1. When the TOML encoder fails, \<^verbatim>\<open>ToToml\<close> returns the description of the error, which
  is not the empty string unless the description itself is empty. When \<^verbatim>\<open>yaml.Marshal\<close>
  or \<^verbatim>\<open>json.Marshal\<close> fails, \<^verbatim>\<open>ToYaml\<close> and \<^verbatim>\<open>ToJson\<close> return the empty string.
\<close>

theorem ToToml_returns_error_text:
  "(toml_Encode L v1 = Inl e1 \<longrightarrow> ToToml L v1 = e1 \<and> (e1 \<noteq> [] \<longrightarrow> ToToml L v1 \<noteq> [])) \<and>
   (yaml_Marshal L v2 = Inl e2 \<longrightarrow> ToYaml L v2 = []) \<and>
   (json_Marshal L v3 = Inl e3 \<longrightarrow> ToJson L v3 = [])"
  by (simp add: ToToml_def ToYaml_def ToJson_def)

theorem ToToml_returns_error_text_witness:
  "toml_Encode sample_codecs (IString ''x'')
     = Inl ''toml: top-level values must be Go maps or structs'' \<and>
   ToToml sample_codecs (IString ''x'') = ''toml: top-level values must be Go maps or structs'' \<and>
   ToToml sample_codecs (IString ''x'') \<noteq> [] \<and>
   yaml_Marshal sample_codecs (IOther ''failingMarshaler'') = Inl ''MarshalYAML failed'' \<and>
   ToYaml sample_codecs (IOther ''failingMarshaler'') = [] \<and>
   json_Marshal sample_codecs (IOther ''chan int'') = Inl ''json: unsupported type: chan int'' \<and>
   ToJson sample_codecs (IOther ''chan int'') = []"
proof -
  have t: "toml_Encode sample_codecs (IString ''x'')
             = Inl ''toml: top-level values must be Go maps or structs''"
    by (simp add: sample_codecs_def sample_toml_Encode_def)
  have y: "yaml_Marshal sample_codecs (IOther ''failingMarshaler'') = Inl ''MarshalYAML failed''"
    by (simp add: sample_codecs_def sample_yaml_Marshal_def)
  have j: "json_Marshal sample_codecs (IOther ''chan int'')
             = Inl ''json: unsupported type: chan int''"
    by (simp add: sample_codecs_def sample_json_Marshal_def)
  show ?thesis
    using t y j
      ToToml_returns_error_text [of sample_codecs "IString ''x''"
        "''toml: top-level values must be Go maps or structs''"
        "IOther ''failingMarshaler''" "''MarshalYAML failed''"
        "IOther ''chan int''" "''json: unsupported type: chan int''"]
    by simp
qed

subsection \<open>Config and secret blocks\<close>

text \<open>
  C4. For a non-nil collection \<^verbatim>\<open>AsSecrets\<close> returns what the YAML codec makes of a
  \<^verbatim>\<open>map[string]string\<close> whose keys are the base names of the entries and whose value
  under a base name is the base64 encoding of the content of the entry with that base name
  (of the last one visited, if several share it): the text \<^verbatim>\<open>yaml.Marshal\<close> returns for
  that map is the result. For the collection \<^verbatim>\<open>{"s.txt":"hello"}\<close>, and likewise for
  \<^verbatim>\<open>{"secrets/s.txt":"hello"}\<close>, the map is \<^verbatim>\<open>{"s.txt":"aGVsbG8="}\<close>, and when the YAML
  library reads its own output for that map back, \<^verbatim>\<open>FromYaml\<close> of the result of
  \<^verbatim>\<open>AsSecrets\<close> is the map with key \<^verbatim>\<open>s.txt\<close> and value \<^verbatim>\<open>"aGVsbG8="\<close>.
\<close>

theorem AsSecrets_base64_map:
  "AsSecrets L (Some entries) = ToYaml L (IStringMap (flatten EncodeToString entries)) \<and>
   (yaml_Marshal L (IStringMap (flatten EncodeToString entries)) = Inr out \<longrightarrow>
      AsSecrets L (Some entries) = out) \<and>
   dom (flatten EncodeToString entries) = Base ` fst ` set entries \<and>
   flatten EncodeToString entries
     = map_of (rev (map (\<lambda>(k, v). (Base k, EncodeToString v)) entries)) \<and>
   (Base k \<notin> Base ` fst ` set after \<longrightarrow>
      flatten EncodeToString (before @ (k, v) # after) (Base k) = Some (EncodeToString v)) \<and>
   AsSecrets L (Some [(''s.txt'', ''hello'')])
     = ToYaml L (IStringMap [''s.txt'' \<mapsto> ''aGVsbG8='']) \<and>
   AsSecrets L (Some [(''secrets/s.txt'', ''hello'')])
     = ToYaml L (IStringMap [''s.txt'' \<mapsto> ''aGVsbG8='']) \<and>
   (yaml_Marshal L (IStringMap [''s.txt'' \<mapsto> ''aGVsbG8='']) = Inr text \<and>
    yaml_Unmarshal L text (Some Map.empty) = (Some [''s.txt'' \<mapsto> IString ''aGVsbG8=''], None) \<longrightarrow>
      AsSecrets L (Some [(''s.txt'', ''hello'')]) = text \<and>
      FromYaml L (AsSecrets L (Some [(''s.txt'', ''hello'')]))
        = Inr (Some [''s.txt'' \<mapsto> IString ''aGVsbG8='']) \<and>
      AsSecrets L (Some [(''secrets/s.txt'', ''hello'')]) = text \<and>
      FromYaml L (AsSecrets L (Some [(''secrets/s.txt'', ''hello'')]))
        = Inr (Some [''s.txt'' \<mapsto> IString ''aGVsbG8='']))"
proof -
  have ex1: "flatten EncodeToString [(''s.txt'', ''hello'')] = [''s.txt'' \<mapsto> ''aGVsbG8='']"
    by (simp add: flatten_def Base_def IsPathSeparator_def enc6_def encodeStd_def)
  have ex2: "flatten EncodeToString [(''secrets/s.txt'', ''hello'')] = [''s.txt'' \<mapsto> ''aGVsbG8='']"
    by (simp add: flatten_def Base_def IsPathSeparator_def enc6_def encodeStd_def)
  have a: "AsSecrets L (Some entries) = ToYaml L (IStringMap (flatten EncodeToString entries))"
    by (simp add: AsSecrets_def)
  have p: "yaml_Marshal L (IStringMap (flatten EncodeToString entries)) = Inr out \<longrightarrow>
      AsSecrets L (Some entries) = out"
    by (simp add: AsSecrets_def ToYaml_def)
  have b1: "AsSecrets L (Some [(''s.txt'', ''hello'')])
              = ToYaml L (IStringMap [''s.txt'' \<mapsto> ''aGVsbG8=''])"
    by (simp add: AsSecrets_def ex1)
  have b2: "AsSecrets L (Some [(''secrets/s.txt'', ''hello'')])
              = ToYaml L (IStringMap [''s.txt'' \<mapsto> ''aGVsbG8=''])"
    by (simp add: AsSecrets_def ex2)
  have c: "yaml_Marshal L (IStringMap [''s.txt'' \<mapsto> ''aGVsbG8='']) = Inr text \<and>
      yaml_Unmarshal L text (Some Map.empty) = (Some [''s.txt'' \<mapsto> IString ''aGVsbG8=''], None) \<longrightarrow>
      AsSecrets L (Some [(''s.txt'', ''hello'')]) = text \<and>
      FromYaml L (AsSecrets L (Some [(''s.txt'', ''hello'')]))
        = Inr (Some [''s.txt'' \<mapsto> IString ''aGVsbG8='']) \<and>
      AsSecrets L (Some [(''secrets/s.txt'', ''hello'')]) = text \<and>
      FromYaml L (AsSecrets L (Some [(''secrets/s.txt'', ''hello'')]))
        = Inr (Some [''s.txt'' \<mapsto> IString ''aGVsbG8=''])"
    by (simp add: b1 b2 ToYaml_def FromYaml_def)
  show ?thesis
    using a p b1 b2 c flatten_dom [of EncodeToString entries]
      flatten_map_of [of EncodeToString entries]
      flatten_last_wins [of k after EncodeToString before v]
    by blast
qed

theorem AsSecrets_base64_map_witness:
  "yaml_Marshal sample_codecs
       (IStringMap (flatten EncodeToString [(''a/s.txt'', ''X''), (''b/s.txt'', ''hello'')]))
     = Inr ''s.txt: aGVsbG8=\<newline>'' \<and>
   AsSecrets sample_codecs (Some [(''a/s.txt'', ''X''), (''b/s.txt'', ''hello'')])
     = ''s.txt: aGVsbG8=\<newline>'' \<and>
   Base ''b/s.txt'' \<notin> Base ` fst ` set [] \<and>
   flatten EncodeToString [(''a/s.txt'', ''X''), (''b/s.txt'', ''hello'')] (Base ''b/s.txt'')
     = Some ''aGVsbG8='' \<and>
   yaml_Marshal sample_codecs (IStringMap [''s.txt'' \<mapsto> ''aGVsbG8=''])
     = Inr ''s.txt: aGVsbG8=\<newline>'' \<and>
   yaml_Unmarshal sample_codecs ''s.txt: aGVsbG8=\<newline>'' (Some Map.empty)
     = (Some [''s.txt'' \<mapsto> IString ''aGVsbG8=''], None) \<and>
   AsSecrets sample_codecs (Some [(''s.txt'', ''hello'')]) = ''s.txt: aGVsbG8=\<newline>'' \<and>
   FromYaml sample_codecs (AsSecrets sample_codecs (Some [(''s.txt'', ''hello'')]))
     = Inr (Some [''s.txt'' \<mapsto> IString ''aGVsbG8='']) \<and>
   AsSecrets sample_codecs (Some [(''secrets/s.txt'', ''hello'')]) = ''s.txt: aGVsbG8=\<newline>'' \<and>
   FromYaml sample_codecs (AsSecrets sample_codecs (Some [(''secrets/s.txt'', ''hello'')]))
     = Inr (Some [''s.txt'' \<mapsto> IString ''aGVsbG8=''])"
proof -
  have m: "flatten EncodeToString [(''a/s.txt'', ''X''), (''b/s.txt'', ''hello'')]
             = [''s.txt'' \<mapsto> ''aGVsbG8='']"
    by (simp add: flatten_def Base_def IsPathSeparator_def enc6_def encodeStd_def)
  have h2: "yaml_Marshal sample_codecs (IStringMap [''s.txt'' \<mapsto> ''aGVsbG8=''])
              = Inr ''s.txt: aGVsbG8=\<newline>''"
    by (simp add: sample_codecs_def sample_yaml_Marshal_def singleton_map_eq)
  have h0: "yaml_Marshal sample_codecs
       (IStringMap (flatten EncodeToString [(''a/s.txt'', ''X''), (''b/s.txt'', ''hello'')]))
     = Inr ''s.txt: aGVsbG8=\<newline>''"
    by (simp only: m h2)
  have h1: "Base ''b/s.txt'' \<notin> Base ` fst ` set []"
    by simp
  have h3: "yaml_Unmarshal sample_codecs ''s.txt: aGVsbG8=\<newline>'' (Some Map.empty)
              = (Some [''s.txt'' \<mapsto> IString ''aGVsbG8=''], None)"
    by (simp add: sample_codecs_def sample_yaml_Unmarshal_def decode_into_def squote_def)
  note main = AsSecrets_base64_map [of sample_codecs
      "[(''a/s.txt'', ''X''), (''b/s.txt'', ''hello'')]" "''s.txt: aGVsbG8=\<newline>''"
      "''b/s.txt''" "[]" "[(''a/s.txt'', ''X'')]" "''hello''" "''s.txt: aGVsbG8=\<newline>''"]
  have r0: "AsSecrets sample_codecs (Some [(''a/s.txt'', ''X''), (''b/s.txt'', ''hello'')])
              = ''s.txt: aGVsbG8=\<newline>''"
    using main h0 by blast
  have l: "flatten EncodeToString [(''a/s.txt'', ''X''), (''b/s.txt'', ''hello'')] (Base ''b/s.txt'')
             = Some (EncodeToString ''hello'')"
    using main h1 by simp
  have e: "EncodeToString ''hello'' = ''aGVsbG8=''"
    by (simp add: enc6_def encodeStd_def)
  have r: "AsSecrets sample_codecs (Some [(''s.txt'', ''hello'')]) = ''s.txt: aGVsbG8=\<newline>'' \<and>
      FromYaml sample_codecs (AsSecrets sample_codecs (Some [(''s.txt'', ''hello'')]))
        = Inr (Some [''s.txt'' \<mapsto> IString ''aGVsbG8='']) \<and>
      AsSecrets sample_codecs (Some [(''secrets/s.txt'', ''hello'')]) = ''s.txt: aGVsbG8=\<newline>'' \<and>
      FromYaml sample_codecs (AsSecrets sample_codecs (Some [(''secrets/s.txt'', ''hello'')]))
        = Inr (Some [''s.txt'' \<mapsto> IString ''aGVsbG8=''])"
    using main h2 h3 by blast
  have l': "flatten EncodeToString [(''a/s.txt'', ''X''), (''b/s.txt'', ''hello'')] (Base ''b/s.txt'')
             = Some ''aGVsbG8=''"
    using l by (simp only: e)
  show ?thesis using h0 r0 h1 l' h2 h3 r by blast
qed

text \<open>
  C5. For a non-nil collection \<^verbatim>\<open>AsConfig\<close> returns what the YAML codec makes of a new
  \<^verbatim>\<open>map[string]string\<close> keyed by the base names of the entries, with the raw contents as
  values. Among entries with the same base name the one visited last by the loop wins.
  For the collection \<^verbatim>\<open>{"cfg/app.yaml":"v: 1"}\<close> the map is \<^verbatim>\<open>{"app.yaml":"v: 1"}\<close>, and
  when the YAML library reads its own output for that map back, \<^verbatim>\<open>FromYaml\<close> of the
  result of \<^verbatim>\<open>AsConfig\<close> is the map with key \<^verbatim>\<open>app.yaml\<close> and value \<^verbatim>\<open>"v: 1"\<close>.
\<close>

theorem AsConfig_base_name_map:
  "AsConfig L (Some entries) = ToYaml L (IStringMap (flatten (\<lambda>v. v) entries)) \<and>
   dom (flatten (\<lambda>v. v) entries) = Base ` fst ` set entries \<and>
   flatten (\<lambda>v. v) entries = map_of (rev (map (\<lambda>(k, v). (Base k, v)) entries)) \<and>
   (Base k \<notin> Base ` fst ` set after \<longrightarrow>
      flatten (\<lambda>v. v) (before @ (k, v) # after) (Base k) = Some v) \<and>
   AsConfig L (Some [(''cfg/app.yaml'', ''v: 1'')])
     = ToYaml L (IStringMap [''app.yaml'' \<mapsto> ''v: 1'']) \<and>
   (yaml_Marshal L (IStringMap [''app.yaml'' \<mapsto> ''v: 1'']) = Inr text \<and>
    yaml_Unmarshal L text (Some Map.empty) = (Some [''app.yaml'' \<mapsto> IString ''v: 1''], None) \<longrightarrow>
      FromYaml L (AsConfig L (Some [(''cfg/app.yaml'', ''v: 1'')]))
        = Inr (Some [''app.yaml'' \<mapsto> IString ''v: 1'']))"
proof -
  have ex: "flatten (\<lambda>v. v) [(''cfg/app.yaml'', ''v: 1'')] = [''app.yaml'' \<mapsto> ''v: 1'']"
    by (simp add: flatten_def Base_def IsPathSeparator_def)
  have a: "AsConfig L (Some entries) = ToYaml L (IStringMap (flatten (\<lambda>v. v) entries))"
    by (simp add: AsConfig_def)
  have b: "AsConfig L (Some [(''cfg/app.yaml'', ''v: 1'')])
             = ToYaml L (IStringMap [''app.yaml'' \<mapsto> ''v: 1''])"
    by (simp add: AsConfig_def ex)
  have c: "yaml_Marshal L (IStringMap [''app.yaml'' \<mapsto> ''v: 1'']) = Inr text \<and>
      yaml_Unmarshal L text (Some Map.empty) = (Some [''app.yaml'' \<mapsto> IString ''v: 1''], None) \<longrightarrow>
      FromYaml L (AsConfig L (Some [(''cfg/app.yaml'', ''v: 1'')]))
        = Inr (Some [''app.yaml'' \<mapsto> IString ''v: 1''])"
    by (simp add: b ToYaml_def FromYaml_def)
  show ?thesis
    using a b c flatten_dom [of "\<lambda>v. v" entries] flatten_map_of [of "\<lambda>v. v" entries]
      flatten_last_wins [of k after "\<lambda>v. v" before v]
    by blast
qed

theorem AsConfig_base_name_map_witness:
  "Base ''b/one.txt'' \<notin> Base ` fst ` set [] \<and>
   flatten (\<lambda>v. v) [(''a/one.txt'', ''X''), (''b/one.txt'', ''Y'')] (Base ''b/one.txt'') = Some ''Y'' \<and>
   flatten (\<lambda>v. v) [(''a/one.txt'', ''X''), (''b/one.txt'', ''Y'')] = [''one.txt'' \<mapsto> ''Y''] \<and>
   yaml_Marshal sample_codecs (IStringMap [''app.yaml'' \<mapsto> ''v: 1''])
     = Inr (''app.yaml: '' @ squote @ ''v: 1'' @ squote @ ''\<newline>'') \<and>
   yaml_Unmarshal sample_codecs (''app.yaml: '' @ squote @ ''v: 1'' @ squote @ ''\<newline>'')
       (Some Map.empty)
     = (Some [''app.yaml'' \<mapsto> IString ''v: 1''], None) \<and>
   FromYaml sample_codecs (AsConfig sample_codecs (Some [(''cfg/app.yaml'', ''v: 1'')]))
     = Inr (Some [''app.yaml'' \<mapsto> IString ''v: 1''])"
proof -
  have h1: "Base ''b/one.txt'' \<notin> Base ` fst ` set []"
    by simp
  have h2: "yaml_Marshal sample_codecs (IStringMap [''app.yaml'' \<mapsto> ''v: 1''])
              = Inr (''app.yaml: '' @ squote @ ''v: 1'' @ squote @ ''\<newline>'')"
    by (simp add: sample_codecs_def sample_yaml_Marshal_def singleton_map_eq)
  have h3: "yaml_Unmarshal sample_codecs (''app.yaml: '' @ squote @ ''v: 1'' @ squote @ ''\<newline>'')
                (Some Map.empty)
              = (Some [''app.yaml'' \<mapsto> IString ''v: 1''], None)"
    by (simp add: sample_codecs_def sample_yaml_Unmarshal_def decode_into_def squote_def)
  have m: "flatten (\<lambda>v. v) [(''a/one.txt'', ''X''), (''b/one.txt'', ''Y'')] = [''one.txt'' \<mapsto> ''Y'']"
    by (simp add: flatten_def Base_def IsPathSeparator_def)
  note main = AsConfig_base_name_map [of sample_codecs
      "[(''a/one.txt'', ''X''), (''b/one.txt'', ''Y'')]" "''b/one.txt''" "[]"
      "[(''a/one.txt'', ''X'')]" "''Y''"
      "''app.yaml: '' @ squote @ ''v: 1'' @ squote @ ''\<newline>''"]
  have l: "flatten (\<lambda>v. v) [(''a/one.txt'', ''X''), (''b/one.txt'', ''Y'')] (Base ''b/one.txt'')
             = Some ''Y''"
    using main h1 by simp
  have r: "FromYaml sample_codecs (AsConfig sample_codecs (Some [(''cfg/app.yaml'', ''v: 1'')]))
             = Inr (Some [''app.yaml'' \<mapsto> IString ''v: 1''])"
    using main h2 h3 by blast
  show ?thesis using h1 h2 h3 m l r by blast
qed

text \<open>
  C9. For the empty, non-nil collection both functions return what the YAML codec makes of
  the empty \<^verbatim>\<open>map[string]string\<close>. With a YAML library that writes the empty map as
  \<^verbatim>\<open>"{}\n"\<close>, as gopkg.in/yaml.v2 does, both return \<^verbatim>\<open>"{}\n"\<close>, which differs from the
  empty string they return for the nil collection.
\<close>

theorem empty_collection_not_nil:
  "AsConfig L (Some []) = ToYaml L (IStringMap Map.empty) \<and>
   AsSecrets L (Some []) = ToYaml L (IStringMap Map.empty) \<and>
   AsConfig L None = [] \<and> AsSecrets L None = [] \<and>
   (yaml_Marshal L (IStringMap Map.empty) = Inr ''{}\<newline>'' \<longrightarrow>
      AsConfig L (Some []) = ''{}\<newline>'' \<and> AsSecrets L (Some []) = ''{}\<newline>'' \<and>
      AsConfig L (Some []) \<noteq> AsConfig L None \<and> AsSecrets L (Some []) \<noteq> AsSecrets L None)"
  by (simp add: AsConfig_def AsSecrets_def flatten_def ToYaml_def)

theorem empty_collection_not_nil_witness:
  "yaml_Marshal sample_codecs (IStringMap Map.empty) = Inr ''{}\<newline>'' \<and>
   AsConfig sample_codecs (Some []) = ''{}\<newline>'' \<and>
   AsSecrets sample_codecs (Some []) = ''{}\<newline>'' \<and>
   AsConfig sample_codecs (Some []) \<noteq> AsConfig sample_codecs None \<and>
   AsSecrets sample_codecs (Some []) \<noteq> AsSecrets sample_codecs None"
proof -
  have h: "yaml_Marshal sample_codecs (IStringMap Map.empty) = Inr ''{}\<newline>''"
    by (simp add: sample_codecs_def sample_yaml_Marshal_def)
  show ?thesis using h empty_collection_not_nil [of sample_codecs] by blast
qed

subsection \<open>Decoding\<close>

text \<open>
  C6. For the string map \<^verbatim>\<open>{"k":"v"}\<close>: when the YAML library encodes it and reads its
  own output back into the same fields, as gopkg.in/yaml.v2 does, \<^verbatim>\<open>FromYaml\<close> of \<^verbatim>\<open>ToYaml\<close>
  of the map is the map \<^verbatim>\<open>{"k":"v"}\<close>, and it has no key \<^verbatim>\<open>"Error"\<close>: the two functions
  add nothing to what the library returns.
\<close>

theorem yaml_round_trip_k_v:
  assumes "yaml_Marshal L (IStringMap [''k'' \<mapsto> ''v'']) = Inr text"
    and "yaml_Unmarshal L text (Some Map.empty) = (Some [''k'' \<mapsto> IString ''v''], None)"
  shows "\<exists>m. FromYaml L (ToYaml L (IStringMap [''k'' \<mapsto> ''v''])) = Inr (Some m) \<and>
           m = [''k'' \<mapsto> IString ''v''] \<and> ''Error'' \<notin> dom m"
  using assms by (simp add: ToYaml_def FromYaml_def)

theorem yaml_round_trip_k_v_witness:
  "yaml_Marshal sample_codecs (IStringMap [''k'' \<mapsto> ''v'']) = Inr ''k: v\<newline>'' \<and>
   yaml_Unmarshal sample_codecs ''k: v\<newline>'' (Some Map.empty)
     = (Some [''k'' \<mapsto> IString ''v''], None) \<and>
   (\<exists>m. FromYaml sample_codecs (ToYaml sample_codecs (IStringMap [''k'' \<mapsto> ''v'']))
          = Inr (Some m) \<and>
        m = [''k'' \<mapsto> IString ''v''] \<and> ''Error'' \<notin> dom m)"
proof -
  have h1: "yaml_Marshal sample_codecs (IStringMap [''k'' \<mapsto> ''v'']) = Inr ''k: v\<newline>''"
    by (simp add: sample_codecs_def sample_yaml_Marshal_def)
  have h2: "yaml_Unmarshal sample_codecs ''k: v\<newline>'' (Some Map.empty)
              = (Some [''k'' \<mapsto> IString ''v''], None)"
    by (simp add: sample_codecs_def sample_yaml_Unmarshal_def decode_into_def)
  show ?thesis using h1 h2 yaml_round_trip_k_v [OF h1 h2] by blast
qed

text \<open>
  C7, as the code has it. When decoding fails with description \<open>e\<close> and leaves the map
  (non-nil) with the fields \<open>m\<close>, \<^verbatim>\<open>FromYaml\<close> and \<^verbatim>\<open>FromJson\<close> return normally, and the
  map they return is \<open>m\<close> with the key \<^verbatim>\<open>"Error"\<close> set to \<open>e\<close>. When the decoder has left
  the map empty, the result has the single key \<^verbatim>\<open>"Error"\<close>.
\<close>

theorem From_error_inserted:
  "(yaml_Unmarshal L str (Some Map.empty) = (Some m, Some e) \<longrightarrow>
      FromYaml L str = Inr (Some (m(''Error'' \<mapsto> IString e))) \<and>
      (m = Map.empty \<longrightarrow> FromYaml L str = Inr (Some [''Error'' \<mapsto> IString e]))) \<and>
   (json_Unmarshal L str' (Some Map.empty) = (Some m', Some e') \<longrightarrow>
      FromJson L str' = Inr (Some (m'(''Error'' \<mapsto> IString e'))) \<and>
      (m' = Map.empty \<longrightarrow> FromJson L str' = Inr (Some [''Error'' \<mapsto> IString e'])))"
  by (simp add: FromYaml_def FromJson_def)

theorem From_error_inserted_witness:
  "yaml_Unmarshal sample_codecs ''not: valid: yaml: :'' (Some Map.empty)
     = (Some Map.empty, Some ''yaml: mapping values are not allowed in this context'') \<and>
   FromYaml sample_codecs ''not: valid: yaml: :''
     = Inr (Some [''Error'' \<mapsto> IString ''yaml: mapping values are not allowed in this context'']) \<and>
   json_Unmarshal sample_codecs ''{'' (Some Map.empty)
     = (Some Map.empty, Some ''unexpected end of JSON input'') \<and>
   FromJson sample_codecs ''{''
     = Inr (Some [''Error'' \<mapsto> IString ''unexpected end of JSON input''])"
proof -
  have y: "yaml_Unmarshal sample_codecs ''not: valid: yaml: :'' (Some Map.empty)
             = (Some Map.empty, Some ''yaml: mapping values are not allowed in this context'')"
    by (simp add: sample_codecs_def sample_yaml_Unmarshal_def)
  have j: "json_Unmarshal sample_codecs ''{'' (Some Map.empty)
             = (Some Map.empty, Some ''unexpected end of JSON input'')"
    by (simp add: sample_codecs_def sample_json_Unmarshal_def)
  show ?thesis
    using y j
      From_error_inserted [of sample_codecs "''not: valid: yaml: :''" Map.empty
        "''yaml: mapping values are not allowed in this context''"
        "''{''" Map.empty "''unexpected end of JSON input''"]
    by blast
qed

text \<open>
  C7, as the specification has it, fails: the result need not have a single key. On the
  document below the YAML decoder stores the field \<^verbatim>\<open>a\<close>, then rejects the sequence used
  as a key and reports a type error; \<^verbatim>\<open>FromYaml\<close> adds \<^verbatim>\<open>"Error"\<close> to the map that already
  holds \<^verbatim>\<open>a\<close>.
\<close>

theorem FromYaml_error_two_keys:
  "yaml_Unmarshal sample_codecs ''a: 1\<newline>[b]: 2\<newline>'' (Some Map.empty)
     = (Some [''a'' \<mapsto> IInt 1],
        Some ''yaml: unmarshal errors:\<newline>  line 2: cannot unmarshal !!seq into string'') \<and>
   FromYaml sample_codecs ''a: 1\<newline>[b]: 2\<newline>''
     = Inr (Some [''a'' \<mapsto> IInt 1,
          ''Error'' \<mapsto> IString
            ''yaml: unmarshal errors:\<newline>  line 2: cannot unmarshal !!seq into string'']) \<and>
   FromYaml sample_codecs ''a: 1\<newline>[b]: 2\<newline>''
     \<noteq> Inr (Some [''Error'' \<mapsto> IString
            ''yaml: unmarshal errors:\<newline>  line 2: cannot unmarshal !!seq into string''])"
proof -
  let ?msg = "''yaml: unmarshal errors:\<newline>  line 2: cannot unmarshal !!seq into string''"
  have u: "yaml_Unmarshal sample_codecs ''a: 1\<newline>[b]: 2\<newline>'' (Some Map.empty)
             = (Some [''a'' \<mapsto> IInt 1], Some ?msg)"
    by (simp add: sample_codecs_def sample_yaml_Unmarshal_def decode_into_def squote_def)
  have r: "FromYaml sample_codecs ''a: 1\<newline>[b]: 2\<newline>''
             = Inr (Some [''a'' \<mapsto> IInt 1, ''Error'' \<mapsto> IString ?msg])"
    by (simp add: FromYaml_def u)
  have "[''a'' \<mapsto> IInt 1, ''Error'' \<mapsto> IString ?msg] ''a''
          \<noteq> [''Error'' \<mapsto> IString ?msg] ''a''"
    by simp
  then have d: "[''a'' \<mapsto> IInt 1, ''Error'' \<mapsto> IString ?msg] \<noteq> [''Error'' \<mapsto> IString ?msg]"
    by metis
  show ?thesis using u r d by simp
qed

text \<open>
  C10. When decoding succeeds, \<^verbatim>\<open>FromYaml\<close> and \<^verbatim>\<open>FromJson\<close> return the decoded map as it
  is, so a document that defines a top-level field \<^verbatim>\<open>Error\<close> gives a result with the key
  \<^verbatim>\<open>"Error"\<close> although nothing failed.
\<close>

theorem Error_key_without_failure:
  "(yaml_Unmarshal L str (Some Map.empty) = (Some m, None) \<and> m ''Error'' = Some x \<longrightarrow>
      FromYaml L str = Inr (Some m) \<and> ''Error'' \<in> dom m) \<and>
   (json_Unmarshal L str' (Some Map.empty) = (Some m', None) \<and> m' ''Error'' = Some x' \<longrightarrow>
      FromJson L str' = Inr (Some m') \<and> ''Error'' \<in> dom m')"
  by (auto simp: FromYaml_def FromJson_def)

theorem Error_key_without_failure_witness:
  \<open>yaml_Unmarshal sample_codecs ''Error: msg'' (Some Map.empty)
     = (Some [''Error'' \<mapsto> IString ''msg''], None) \<and>
   FromYaml sample_codecs ''Error: msg'' = Inr (Some [''Error'' \<mapsto> IString ''msg'']) \<and>
   json_Unmarshal sample_codecs ''{"Error":"msg"}'' (Some Map.empty)
     = (Some [''Error'' \<mapsto> IString ''msg''], None) \<and>
   FromJson sample_codecs ''{"Error":"msg"}'' = Inr (Some [''Error'' \<mapsto> IString ''msg'']) \<and>
   ''Error'' \<in> dom [''Error'' \<mapsto> IString ''msg'']\<close>
proof -
  have y: "yaml_Unmarshal sample_codecs ''Error: msg'' (Some Map.empty)
             = (Some [''Error'' \<mapsto> IString ''msg''], None)"
    by (simp add: sample_codecs_def sample_yaml_Unmarshal_def decode_into_def squote_def)
  have j: \<open>json_Unmarshal sample_codecs ''{"Error":"msg"}'' (Some Map.empty)
             = (Some [''Error'' \<mapsto> IString ''msg''], None)\<close>
    by (simp add: sample_codecs_def sample_json_Unmarshal_def decode_into_def)
  have k: "[''Error'' \<mapsto> IString ''msg''] ''Error'' = Some (IString ''msg'')"
    by simp
  show ?thesis
    using y j k
      Error_key_without_failure [of sample_codecs "''Error: msg''"
        "[''Error'' \<mapsto> IString ''msg'']" "IString ''msg''"
        \<open>''{"Error":"msg"}''\<close> "[''Error'' \<mapsto> IString ''msg'']" "IString ''msg''"]
    by blast
qed

subsection \<open>JSON round trip\<close>




end
